theory Spec2Isabelle
  imports Complex_Main "HOL-Library.Product_Lexorder" "HOL-Library.Sublist" "HOL-Library.AList"
begin

section \<open>Data model\<close>

text \<open>
  The module \<^verbatim>\<open>time_series_visualizer.py\<close> loads a CSV file into a pandas DataFrame,
  filters it once at import time and offers three renderers. The calls into pandas,
  matplotlib and seaborn are modelled by the documented effect of each call on the
  data it handles. Quantiles and means are exact rationals here; the libraries evaluate
  the same formulas in binary floating point. A missing number (NaN) is \<open>None\<close>.
\<close>

record date =
  year :: int
  month :: nat
  day :: nat

text \<open>The parsed contents of \<^verbatim>\<open>fcc-forum-pageviews.csv\<close>: rows (date, value) in file order.\<close>

type_synonym table = "(date \<times> int) list"

datatype column = IntCol "int list" | DateCol "date list" | StrCol "string list"

datatype frame_index = DatetimeIndex "date list" | RangeIndex nat | Int64Index "int list"

record frame =
  index_name :: "string option"
  index :: frame_index
  columns :: "(string \<times> column) list"

datatype error =
  KeyError string | ValueError string | TypeError string | AttributeError string
  | NameError string

datatype label = IntLabel int | StrLabel string

datatype artist =
  Line2D "date list" "int list" string nat
  | BarContainer label "rat option list"
  | Box nat "int list"

record axes =
  title :: string
  xlabel :: string
  ylabel :: string
  xticklabels :: "label list"
  artists :: "artist list"
  the_legend :: "(string \<times> (artist \<times> label) list) option"

record figure =
  figsize :: "nat \<times> nat"
  axs :: "axes list"

text \<open>
  The interpreter state: DataFrames live in a store of objects (\<open>heap\<close>, with \<open>nxt\<close> the
  next free address), the module-level name \<^verbatim>\<open>df\<close> holds the address of one of them,
  and \<open>files\<close> is what the renderers have written to disk.
\<close>

record state =
  heap :: "nat \<rightharpoonup> frame"
  nxt :: nat
  df :: "nat option"
  files :: "string \<rightharpoonup> figure"

type_synonym 'a prog = "state \<Rightarrow> (error + 'a) \<times> state"

definition empty_state :: state where
  "empty_state = \<lparr>heap = Map.empty, nxt = 0, df = None, files = Map.empty\<rparr>"

section \<open>Sequencing with exceptions\<close>

definition bind_res :: "error + 'a \<Rightarrow> ('a \<Rightarrow> error + 'b) \<Rightarrow> error + 'b" where
  "bind_res m k = (case m of Inl e \<Rightarrow> Inl e | Inr v \<Rightarrow> k v)"

definition bind_st :: "'a prog \<Rightarrow> ('a \<Rightarrow> 'b prog) \<Rightarrow> 'b prog" where
  "bind_st m k s = (case m s of (Inl e, s') \<Rightarrow> (Inl e, s') | (Inr v, s') \<Rightarrow> k v s')"

definition lift :: "error + 'a \<Rightarrow> 'a prog" where
  "lift r s = (r, s)"

definition alloc :: "frame \<Rightarrow> nat prog" where
  "alloc f s = (Inr (nxt s), s\<lparr>heap := (heap s)(nxt s \<mapsto> f), nxt := Suc (nxt s)\<rparr>)"

definition deref :: "nat \<Rightarrow> frame prog" where
  "deref a s = (case heap s a of None \<Rightarrow> (Inl (NameError ''object''), s)
                | Some f \<Rightarrow> (Inr f, s))"

definition global_df :: "nat prog" where
  "global_df s = (case df s of None \<Rightarrow> (Inl (NameError ''df''), s) | Some a \<Rightarrow> (Inr a, s))"

definition set_global_df :: "nat \<Rightarrow> unit prog" where
  "set_global_df a s = (Inr (), s\<lparr>df := Some a\<rparr>)"

section \<open>pandas: loading, quantiles, boolean indexing\<close>

text \<open>
  \<^verbatim>\<open>pd.read_csv('fcc-forum-pageviews.csv', parse_dates=['date'], index_col='date')\<close>:
  the date column becomes the index (named \<^verbatim>\<open>date\<close>), \<^verbatim>\<open>value\<close> the only column.
\<close>

definition read_csv :: "table \<Rightarrow> frame" where
  "read_csv rows = \<lparr>index_name = Some ''date'', index = DatetimeIndex (map fst rows),
     columns = [(''value'', IntCol (map snd rows))]\<rparr>"

text \<open>\<^verbatim>\<open>df['value']\<close>\<close>

definition getitem :: "frame \<Rightarrow> string \<Rightarrow> error + column" where
  "getitem f k = (case map_of (columns f) k of None \<Rightarrow> Inl (KeyError k) | Some c \<Rightarrow> Inr c)"

text \<open>
  \<^verbatim>\<open>Series.quantile(q)\<close> with the default linear interpolation: on the sorted values
  \<open>s\<close> of length \<open>n\<close>, the position is \<open>h = (n - 1) * q\<close> and the result lies between
  \<open>s[floor h]\<close> and its successor, at the fraction \<open>h - floor h\<close>. An empty series has
  the quantile NaN.
\<close>

definition linear_quantile :: "int list \<Rightarrow> rat \<Rightarrow> rat option" where
  "linear_quantile xs q =
     (if xs = [] then None
      else let s = sort xs; n = length s; h = of_nat (n - 1) * q;
               i = nat \<lfloor>h\<rfloor>; j = min (Suc i) (n - 1)
           in Some (of_int (s ! i) + (of_int (s ! j) - of_int (s ! i)) * (h - of_int \<lfloor>h\<rfloor>)))"

definition quantile :: "column \<Rightarrow> rat \<Rightarrow> error + rat option" where
  "quantile c q =
     (case c of
        IntCol xs \<Rightarrow>
          (if q < 0 \<or> 1 < q then Inl (ValueError ''percentiles should all be in the interval [0, 1]'')
           else Inr (linear_quantile xs q))
      | _ \<Rightarrow> Inl (TypeError ''quantile''))"

text \<open>\<^verbatim>\<open>series >= x\<close> and \<^verbatim>\<open>series <= x\<close>: elementwise, False against NaN.\<close>

definition series_ge :: "column \<Rightarrow> rat option \<Rightarrow> error + bool list" where
  "series_ge c t =
     (case c of
        IntCol xs \<Rightarrow> Inr (map (\<lambda>v. case t of None \<Rightarrow> False | Some b \<Rightarrow> b \<le> of_int v) xs)
      | _ \<Rightarrow> Inl (TypeError ''>=''))"

definition series_le :: "column \<Rightarrow> rat option \<Rightarrow> error + bool list" where
  "series_le c t =
     (case c of
        IntCol xs \<Rightarrow> Inr (map (\<lambda>v. case t of None \<Rightarrow> False | Some b \<Rightarrow> of_int v \<le> b) xs)
      | _ \<Rightarrow> Inl (TypeError ''<=''))"

text \<open>\<^verbatim>\<open>mask1 & mask2\<close> on two masks over the same index.\<close>

definition mask_and :: "bool list \<Rightarrow> bool list \<Rightarrow> bool list" where
  "mask_and a b = map (\<lambda>(x, y). x \<and> y) (zip a b)"

text \<open>\<^verbatim>\<open>df[mask]\<close>: a new frame with the positions where the mask is True.\<close>

definition select :: "bool list \<Rightarrow> 'a list \<Rightarrow> 'a list" where
  "select m xs = map fst (filter snd (zip xs m))"

fun select_col :: "bool list \<Rightarrow> column \<Rightarrow> column" where
  "select_col m (IntCol xs) = IntCol (select m xs)"
| "select_col m (DateCol xs) = DateCol (select m xs)"
| "select_col m (StrCol xs) = StrCol (select m xs)"

fun select_index :: "bool list \<Rightarrow> frame_index \<Rightarrow> frame_index" where
  "select_index m (DatetimeIndex ds) = DatetimeIndex (select m ds)"
| "select_index m (RangeIndex n) = Int64Index (select m (map int [0..<n]))"
| "select_index m (Int64Index xs) = Int64Index (select m xs)"

fun index_len :: "frame_index \<Rightarrow> nat" where
  "index_len (DatetimeIndex ds) = length ds"
| "index_len (RangeIndex n) = n"
| "index_len (Int64Index xs) = length xs"

fun col_len :: "column \<Rightarrow> nat" where
  "col_len (IntCol xs) = length xs"
| "col_len (DateCol xs) = length xs"
| "col_len (StrCol xs) = length xs"

definition bool_getitem :: "frame \<Rightarrow> bool list \<Rightarrow> error + frame" where
  "bool_getitem f m =
     (if length m \<noteq> index_len (index f) then Inl (ValueError ''Item wrong length'')
      else Inr (f\<lparr>index := select_index m (index f),
                  columns := map (\<lambda>(k, c). (k, select_col m c)) (columns f)\<rparr>))"

section \<open>Module level: load and filter\<close>

text \<open>
  Lines 11 and 18-19. The filter expression reads \<^verbatim>\<open>df['value']\<close> four times, takes
  both quantiles of the loaded frame, and binds \<^verbatim>\<open>df\<close> to the new, selected frame.
\<close>

definition outlier_filter :: "frame \<Rightarrow> error + frame" where
  "outlier_filter f =
     bind_res (getitem f ''value'') (\<lambda>v1.
     bind_res (getitem f ''value'') (\<lambda>v2.
     bind_res (quantile v2 0.025) (\<lambda>lo.
     bind_res (series_ge v1 lo) (\<lambda>m1.
     bind_res (getitem f ''value'') (\<lambda>v3.
     bind_res (getitem f ''value'') (\<lambda>v4.
     bind_res (quantile v4 0.975) (\<lambda>hi.
     bind_res (series_le v3 hi) (\<lambda>m2.
     bool_getitem f (mask_and m1 m2)))))))))"

definition import_module :: "table \<Rightarrow> unit prog" where
  "import_module rows =
     bind_st (alloc (read_csv rows)) (\<lambda>a.
     bind_st (set_global_df a) (\<lambda>_.
     bind_st global_df (\<lambda>a1.
     bind_st (deref a1) (\<lambda>f.
     bind_st (lift (outlier_filter f)) (\<lambda>f'.
     bind_st (alloc f') (\<lambda>a2.
     set_global_df a2))))))"

text \<open>Reading a date-indexed frame back as rows (date, value).\<close>

definition rows_of :: "frame \<Rightarrow> table" where
  "rows_of f =
     (case (index f, map_of (columns f) ''value'') of
        (DatetimeIndex ds, Some (IntCol vs)) \<Rightarrow> zip ds vs
      | _ \<Rightarrow> [])"

section \<open>pandas: copies, derived columns, grouping\<close>

text \<open>\<^verbatim>\<open>df.copy()\<close>: a new object with the same contents.\<close>

definition copy :: "nat \<Rightarrow> nat prog" where
  "copy a = bind_st (deref a) (\<lambda>f. alloc f)"

text \<open>\<^verbatim>\<open>frame.index.year\<close> and \<^verbatim>\<open>frame.index.month\<close>, defined on a date index only.\<close>

definition index_year :: "frame \<Rightarrow> error + column" where
  "index_year f =
     (case index f of DatetimeIndex ds \<Rightarrow> Inr (IntCol (map year ds))
      | _ \<Rightarrow> Inl (AttributeError ''year''))"

definition index_month :: "frame \<Rightarrow> error + column" where
  "index_month f =
     (case index f of DatetimeIndex ds \<Rightarrow> Inr (IntCol (map (\<lambda>d. int (month d)) ds))
      | _ \<Rightarrow> Inl (AttributeError ''month''))"

text \<open>
  \<^verbatim>\<open>frame[k] = values\<close> changes the object in place: an existing column is replaced
  where it stands, a new one is appended.
\<close>

definition setitem :: "nat \<Rightarrow> string \<Rightarrow> column \<Rightarrow> unit prog" where
  "setitem a k c =
     bind_st (deref a) (\<lambda>f s.
       if col_len c \<noteq> index_len (index f)
       then (Inl (ValueError ''Length of values does not match length of index''), s)
       else (Inr (), s\<lparr>heap := (heap s)(a \<mapsto> f\<lparr>columns := AList.update k c (columns f)\<rparr>)\<rparr>))"

text \<open>
  \<^verbatim>\<open>frame.reset_index(inplace=True)\<close>: the index becomes the first column, under the
  index's name, and the rows are numbered from 0.
\<close>

definition index_column :: "frame_index \<Rightarrow> column" where
  "index_column ix =
     (case ix of DatetimeIndex ds \<Rightarrow> DateCol ds
      | RangeIndex n \<Rightarrow> IntCol (map int [0..<n])
      | Int64Index xs \<Rightarrow> IntCol xs)"

definition reset_index :: "nat \<Rightarrow> unit prog" where
  "reset_index a =
     bind_st (deref a) (\<lambda>f s.
       let k = (case index_name f of None \<Rightarrow> ''index'' | Some n \<Rightarrow> n) in
       if k \<in> set (map fst (columns f))
       then (Inl (ValueError ''cannot insert, already exists''), s)
       else (Inr (), s\<lparr>heap := (heap s)(a \<mapsto>
               \<lparr>index_name = None, index = RangeIndex (index_len (index f)),
                columns = (k, index_column (index f)) # columns f\<rparr>)\<rparr>))"

text \<open>
  \<^verbatim>\<open>frame.groupby([k1, k2])[v].mean()\<close>: one entry per distinct key pair, in ascending
  order of the pair, holding the arithmetic mean of the group's values. The model covers
  integer keys and values, which is what the renderer passes.
\<close>

definition mean :: "int list \<Rightarrow> rat" where
  "mean vs = of_int (sum_list vs) / of_nat (length vs)"

definition group_values :: "('k \<times> int) list \<Rightarrow> 'k \<Rightarrow> int list" where
  "group_values kvs k = map snd (filter (\<lambda>kv. fst kv = k) kvs)"

definition groupby_mean ::
    "frame \<Rightarrow> string \<Rightarrow> string \<Rightarrow> string \<Rightarrow> error + ((int \<times> int) \<times> rat) list" where
  "groupby_mean f k1 k2 v =
     bind_res (getitem f k1) (\<lambda>c1.
     bind_res (getitem f k2) (\<lambda>c2.
     bind_res (getitem f v) (\<lambda>cv.
       case (c1, c2, cv) of
         (IntCol ys, IntCol ms, IntCol vs) \<Rightarrow>
           Inr (map (\<lambda>k. (k, mean (group_values (zip (zip ys ms) vs) k)))
                  (sort (remdups (zip ys ms))))
       | _ \<Rightarrow> Inl (TypeError ''groupby''))))"

text \<open>
  \<^verbatim>\<open>series.unstack()\<close>: the first key level becomes the row index, the distinct values
  of the second level become the columns, in ascending order; a combination without an
  entry is NaN.
\<close>

record grid =
  grid_index :: "int list"
  grid_columns :: "(int \<times> rat option list) list"

definition unstack :: "((int \<times> int) \<times> rat) list \<Rightarrow> grid" where
  "unstack sr =
     (let ys = sort (remdups (map (\<lambda>e. fst (fst e)) sr));
          ms = sort (remdups (map (\<lambda>e. snd (fst e)) sr))
      in \<lparr>grid_index = ys,
          grid_columns = map (\<lambda>m. (m, map (\<lambda>y. map_of sr (y, m)) ys)) ms\<rparr>)"

text \<open>The cell of a grid at a row label and a column label; \<open>None\<close> where there is no number.\<close>

definition cell :: "grid \<Rightarrow> int \<Rightarrow> int \<Rightarrow> rat option" where
  "cell g y m =
     (case map_of (grid_columns g) m of
        None \<Rightarrow> None
      | Some c \<Rightarrow> (case map_of (zip (grid_index g) c) y of None \<Rightarrow> None | Some v \<Rightarrow> v))"

section \<open>matplotlib and seaborn\<close>

definition new_axes :: axes where
  "new_axes = \<lparr>title = [], xlabel = [], ylabel = [], xticklabels = [], artists = [],
     the_legend = None\<rparr>"

text \<open>\<^verbatim>\<open>plt.subplots(...)\<close> with \<open>n\<close> axes side by side.\<close>

definition subplots :: "nat \<Rightarrow> nat \<times> nat \<Rightarrow> figure" where
  "subplots n sz = \<lparr>figsize = sz, axs = replicate n new_axes\<rparr>"

text \<open>
  An axes object belongs to its figure: a call on \<^verbatim>\<open>ax\<close> or \<^verbatim>\<open>axes[i]\<close> changes the
  figure. The renderers use the positions that \<open>subplots\<close> created and no other; at a
  position the figure does not have, the model leaves the figure as it is.
\<close>

definition on_ax :: "nat \<Rightarrow> (axes \<Rightarrow> axes) \<Rightarrow> figure \<Rightarrow> figure" where
  "on_ax i f fig =
     (if i < length (axs fig) then fig\<lparr>axs := (axs fig)[i := f (axs fig ! i)]\<rparr> else fig)"

definition on_ax_res :: "nat \<Rightarrow> (axes \<Rightarrow> error + axes) \<Rightarrow> figure \<Rightarrow> error + figure" where
  "on_ax_res i f fig =
     (if i < length (axs fig)
      then bind_res (f (axs fig ! i)) (\<lambda>ax. Inr (fig\<lparr>axs := (axs fig)[i := ax]\<rparr>))
      else Inr fig)"

definition set_title :: "string \<Rightarrow> axes \<Rightarrow> axes" where
  "set_title t ax = ax\<lparr>title := t\<rparr>"

definition set_xlabel :: "string \<Rightarrow> axes \<Rightarrow> axes" where
  "set_xlabel t ax = ax\<lparr>xlabel := t\<rparr>"

definition set_ylabel :: "string \<Rightarrow> axes \<Rightarrow> axes" where
  "set_ylabel t ax = ax\<lparr>ylabel := t\<rparr>"

text \<open>\<^verbatim>\<open>ax.plot(x, y, color=..., linewidth=...)\<close> with a date index and an integer column.\<close>

definition plot :: "frame_index \<Rightarrow> column \<Rightarrow> string \<Rightarrow> nat \<Rightarrow> axes \<Rightarrow> error + axes" where
  "plot ix c color lw ax =
     (case (ix, c) of
        (DatetimeIndex ds, IntCol vs) \<Rightarrow>
          (if length ds \<noteq> length vs
           then Inl (ValueError ''x and y must have same first dimension'')
           else Inr (ax\<lparr>artists := artists ax @ [Line2D ds vs color lw]\<rparr>))
      | _ \<Rightarrow> Inl (TypeError ''plot''))"

text \<open>
  \<^verbatim>\<open>grid.plot(kind='bar', ax=ax)\<close>: one bar container per column of the grid (a bar per
  row in each, without height where the cell is NaN), labelled by the column; the rows
  label the ticks; pandas puts the index name under the axis and draws its own legend.
  A frame without columns is refused.
\<close>

definition plot_bar :: "grid \<Rightarrow> axes \<Rightarrow> error + axes" where
  "plot_bar g ax =
     (if grid_columns g = [] then Inl (TypeError ''no numeric data to plot'')
      else
        let bars = map (\<lambda>(m, c). BarContainer (IntLabel m) c) (grid_columns g)
        in Inr (ax\<lparr>xlabel := ''year'',
                  xticklabels := map IntLabel (grid_index g),
                  artists := artists ax @ bars,
                  the_legend := Some (''month'',
                     map (\<lambda>(m, c). (BarContainer (IntLabel m) c, IntLabel m)) (grid_columns g))\<rparr>))"

text \<open>
  \<^verbatim>\<open>ax.legend(title=..., labels=...)\<close> without handles: matplotlib takes the artists of
  the axes in the order they were added and gives them the labels in the order they are
  listed, one label per artist, as far as both lists reach.
\<close>

definition legend :: "string \<Rightarrow> string list \<Rightarrow> axes \<Rightarrow> axes" where
  "legend t labels ax = ax\<lparr>the_legend := Some (t, zip (artists ax) (map StrLabel labels))\<rparr>"

text \<open>
  \<^verbatim>\<open>sns.boxplot(x=..., y=..., data=..., ax=..., order=...)\<close>: one group per entry of
  \<open>order\<close>, at the position of the entry; without \<open>order\<close> the groups are the distinct
  values of the \<open>x\<close> column, sorted when they are numbers, else as they first appear.
  A box is drawn for a group that has values; seaborn names the axes after the columns.
  On data without rows seaborn returns at once and leaves the axes as they are: no
  groups, no tick labels, no axis names.
\<close>

definition categorical_order :: "column \<Rightarrow> error + label list" where
  "categorical_order c =
     (case c of
        IntCol xs \<Rightarrow> Inr (map IntLabel (sort (remdups xs)))
      | StrCol xs \<Rightarrow> Inr (map StrLabel (remdups xs))
      | DateCol xs \<Rightarrow> Inl (TypeError ''boxplot''))"

definition labels_of :: "column \<Rightarrow> error + label list" where
  "labels_of c =
     (case c of
        IntCol xs \<Rightarrow> Inr (map IntLabel xs)
      | StrCol xs \<Rightarrow> Inr (map StrLabel xs)
      | DateCol xs \<Rightarrow> Inl (TypeError ''boxplot''))"

definition boxes :: "label list \<Rightarrow> (label \<times> int) list \<Rightarrow> artist list" where
  "boxes names kvs =
     map (\<lambda>(i, k). Box i (group_values kvs k))
       (filter (\<lambda>(i, k). group_values kvs k \<noteq> []) (zip [0..<length names] names))"

definition boxplot ::
    "string \<Rightarrow> string \<Rightarrow> frame \<Rightarrow> label list option \<Rightarrow> axes \<Rightarrow> error + axes" where
  "boxplot x y f order ax =
     bind_res (getitem f x) (\<lambda>cx.
     bind_res (getitem f y) (\<lambda>cy.
     bind_res (labels_of cx) (\<lambda>ks.
       if index_len (index f) = 0 then Inr ax
       else
     bind_res (case order of None \<Rightarrow> categorical_order cx | Some names \<Rightarrow> Inr names) (\<lambda>names.
       case cy of
         IntCol vs \<Rightarrow>
           Inr (ax\<lparr>xlabel := x, ylabel := y, xticklabels := names,
                   artists := artists ax @ boxes names (zip ks vs)\<rparr>)
       | _ \<Rightarrow> Inl (TypeError ''boxplot'')))))"

text \<open>\<^verbatim>\<open>fig.savefig(name)\<close> writes the figure as it is at that moment.\<close>

definition savefig :: "figure \<Rightarrow> string \<Rightarrow> unit prog" where
  "savefig fig name s = (Inr (), s\<lparr>files := (files s)(name \<mapsto> fig)\<rparr>)"

text \<open>
  \<^verbatim>\<open>d.strftime('%b')\<close>: the abbreviated month name. A date's month is between 1 and 12;
  the record type allows other numbers, for which the model gives the empty string.
\<close>

definition month_abbr :: "string list" where
  "month_abbr = [''Jan'', ''Feb'', ''Mar'', ''Apr'', ''May'', ''Jun'', ''Jul'', ''Aug'',
     ''Sep'', ''Oct'', ''Nov'', ''Dec'']"

definition strftime_b :: "date \<Rightarrow> string" where
  "strftime_b d =
     (if 1 \<le> month d \<and> month d \<le> 12 then month_abbr ! (month d - 1) else [])"

section \<open>The renderers\<close>

text \<open>\<^verbatim>\<open>draw_line_plot\<close>, lines 22-43.\<close>

definition draw_line_plot :: "figure prog" where
  "draw_line_plot =
     (let fig = subplots 1 (15, 5) in
      bind_st global_df (\<lambda>a.
      bind_st (deref a) (\<lambda>f.
      bind_st (lift (getitem f ''value'')) (\<lambda>v.
      bind_st (lift (on_ax_res 0 (plot (index f) v ''red'' 1) fig)) (\<lambda>fig.
        let fig = on_ax 0 (set_title ''Daily freeCodeCamp Forum Page Views 5/2016-12/2019'') fig;
            fig = on_ax 0 (set_xlabel ''Date'') fig;
            fig = on_ax 0 (set_ylabel ''Page Views'') fig
        in bind_st (savefig fig ''line_plot.png'') (\<lambda>_. lift (Inr fig)))))))"

text \<open>
  \<^verbatim>\<open>draw_bar_plot\<close>, lines 45-85. \<open>bar_grid\<close> is lines 49-61: the value of \<^verbatim>\<open>df_bar\<close>
  when the plotting starts.
\<close>

definition bar_grid :: "grid prog" where
  "bar_grid =
     bind_st global_df (\<lambda>a.
     bind_st (copy a) (\<lambda>df_bar.
     bind_st (deref df_bar) (\<lambda>f.
     bind_st (lift (index_year f)) (\<lambda>ys.
     bind_st (setitem df_bar ''year'' ys) (\<lambda>_.
     bind_st (deref df_bar) (\<lambda>f.
     bind_st (lift (index_month f)) (\<lambda>ms.
     bind_st (setitem df_bar ''month'' ms) (\<lambda>_.
     bind_st (deref df_bar) (\<lambda>f.
     bind_st (lift (groupby_mean f ''year'' ''month'' ''value'')) (\<lambda>sr.
     lift (Inr (unstack sr))))))))))))"

definition months :: "string list" where
  "months = [''January'', ''February'', ''March'', ''April'', ''May'', ''June'', ''July'',
     ''August'', ''September'', ''October'', ''November'', ''December'']"

definition draw_bar_plot :: "figure prog" where
  "draw_bar_plot =
     bind_st bar_grid (\<lambda>df_bar.
       let fig = subplots 1 (10, 8) in
       bind_st (lift (on_ax_res 0 (plot_bar df_bar) fig)) (\<lambda>fig.
         let fig = on_ax 0 (set_xlabel ''Years'') fig;
             fig = on_ax 0 (set_ylabel ''Average Page Views'') fig;
             fig = on_ax 0 (legend ''Months'' months) fig
         in bind_st (savefig fig ''bar_plot.png'') (\<lambda>_. lift (Inr fig))))"

text \<open>
  \<^verbatim>\<open>draw_box_plot\<close>, lines 87-127. \<open>box_frame\<close> is lines 90-97: the address of
  \<^verbatim>\<open>df_box\<close> when the plotting starts.
\<close>

definition date_col :: "column \<Rightarrow> error + date list" where
  "date_col c = (case c of DateCol ds \<Rightarrow> Inr ds | _ \<Rightarrow> Inl (AttributeError ''year''))"

definition box_frame :: "nat prog" where
  "box_frame =
     bind_st global_df (\<lambda>a.
     bind_st (copy a) (\<lambda>df_box.
     bind_st (reset_index df_box) (\<lambda>_.
     bind_st (deref df_box) (\<lambda>f.
     bind_st (lift (bind_res (getitem f ''date'') date_col)) (\<lambda>ds.
     bind_st (setitem df_box ''year'' (IntCol (map year ds))) (\<lambda>_.
     bind_st (deref df_box) (\<lambda>f.
     bind_st (lift (bind_res (getitem f ''date'') date_col)) (\<lambda>ds.
     bind_st (setitem df_box ''month'' (StrCol (map strftime_b ds))) (\<lambda>_.
     lift (Inr df_box))))))))))"

definition month_order :: "string list" where
  "month_order = [''Jan'', ''Feb'', ''Mar'', ''Apr'', ''May'', ''Jun'', ''Jul'', ''Aug'',
     ''Sep'', ''Oct'', ''Nov'', ''Dec'']"

definition draw_box_plot :: "figure prog" where
  "draw_box_plot =
     bind_st box_frame (\<lambda>df_box.
       let fig = subplots 2 (20, 8) in
       bind_st (deref df_box) (\<lambda>f.
       bind_st (lift (on_ax_res 0 (boxplot ''year'' ''value'' f None) fig)) (\<lambda>fig.
         let fig = on_ax 0 (set_title ''Year-wise Box Plot (Trend)'') fig;
             fig = on_ax 0 (set_xlabel ''Year'') fig;
             fig = on_ax 0 (set_ylabel ''Page Views'') fig
         in
       bind_st (deref df_box) (\<lambda>f.
       bind_st (lift (on_ax_res 1
                  (boxplot ''month'' ''value'' f (Some (map StrLabel month_order))) fig)) (\<lambda>fig.
         let fig = on_ax 1 (set_title ''Month-wise Box Plot (Seasonality)'') fig;
             fig = on_ax 1 (set_xlabel ''Month'') fig;
             fig = on_ax 1 (set_ylabel ''Page Views'') fig
         in bind_st (savefig fig ''box_plot.png'') (\<lambda>_. lift (Inr fig)))))))"

section \<open>The pipeline and its intermediate values\<close>

text \<open>A renderer, or any other step, run in the state that importing the module leaves.\<close>

definition run :: "'a prog \<Rightarrow> table \<Rightarrow> (error + 'a) \<times> state" where
  "run m rows = bind_st (import_module rows) (\<lambda>_. m) empty_state"

text \<open>FilteredTable: the rows of the frame that \<^verbatim>\<open>df\<close> names once the module is imported.\<close>

definition FilteredTable :: "table \<Rightarrow> error + table" where
  "FilteredTable rows =
     fst (run (bind_st global_df (\<lambda>a. bind_st (deref a) (\<lambda>f. lift (Inr (rows_of f))))) rows)"

text \<open>
  The spec's FilteredTable, in the spec's words: the rows of Table with
  \<open>lower_quantile(0.025) \<le> value \<le> upper_quantile(0.975)\<close>, both thresholds taken
  over the value column of the full Table.
\<close>

definition spec_FilteredTable :: "table \<Rightarrow> table" where
  "spec_FilteredTable rows =
     filter (\<lambda>r. case (linear_quantile (map snd rows) 0.025,
                       linear_quantile (map snd rows) 0.975) of
                   (Some lo, Some hi) \<Rightarrow> lo \<le> of_int (snd r) \<and> of_int (snd r) \<le> hi
                 | _ \<Rightarrow> False) rows"

text \<open>
  The state that the statements below show the import to leave behind: the loaded frame
  at address 0, the filtered one at address 1, which \<^verbatim>\<open>df\<close> names.
\<close>

definition loaded :: "table \<Rightarrow> state" where
  "loaded rows = \<lparr>heap = [0 \<mapsto> read_csv rows, 1 \<mapsto> read_csv (spec_FilteredTable rows)],
     nxt = 2, df = Some 1, files = Map.empty\<rparr>"

text \<open>MonthlyAverageGrid: the value of \<^verbatim>\<open>df_bar\<close> after line 61; its column labels.\<close>

definition MonthlyAverageGrid :: "table \<Rightarrow> error + grid" where
  "MonthlyAverageGrid rows = fst (run bar_grid rows)"

definition grid_months :: "grid \<Rightarrow> int list" where
  "grid_months g = map fst (grid_columns g)"

text \<open>
  What the statements below say about the intermediate values: the (year, month) key of
  a row, \<^verbatim>\<open>df_bar\<close> after line 55, the grouped means of line 61 before \<^verbatim>\<open>unstack\<close>,
  and \<^verbatim>\<open>df_box\<close> after line 97, each as a function of the rows of the filtered table.
\<close>

definition year_month :: "date \<times> int \<Rightarrow> int \<times> int" where
  "year_month r = (year (fst r), int (month (fst r)))"

definition bar_frame :: "table \<Rightarrow> frame" where
  "bar_frame F = \<lparr>index_name = Some ''date'', index = DatetimeIndex (map fst F),
     columns = [(''value'', IntCol (map snd F)),
                (''year'', IntCol (map (\<lambda>r. year (fst r)) F)),
                (''month'', IntCol (map (\<lambda>r. int (month (fst r))) F))]\<rparr>"

definition monthly_means :: "table \<Rightarrow> ((int \<times> int) \<times> rat) list" where
  "monthly_means F =
     map (\<lambda>k. (k, mean (group_values (map (\<lambda>r. (year_month r, snd r)) F) k)))
       (sort (remdups (map year_month F)))"

definition box_data :: "table \<Rightarrow> frame" where
  "box_data F = \<lparr>index_name = None, index = RangeIndex (length F),
     columns = [(''date'', DateCol (map fst F)), (''value'', IntCol (map snd F)),
                (''year'', IntCol (map (\<lambda>r. year (fst r)) F)),
                (''month'', StrCol (map (\<lambda>r. strftime_b (fst r)) F))]\<rparr>"

section \<open>Example tables\<close>

text \<open>
  The three rows of the spec's scenario; one row in May; two rows, both of which the
  filter removes; rows of two years.
\<close>

definition scenario_rows :: table where
  "scenario_rows = [(\<lparr>year = 2016, month = 5, day = 9\<rparr>, 1201),
     (\<lparr>year = 2016, month = 5, day = 10\<rparr>, 2329),
     (\<lparr>year = 2016, month = 5, day = 11\<rparr>, 1716)]"

definition single_may_row :: table where
  "single_may_row = [(\<lparr>year = 2016, month = 5, day = 9\<rparr>, 1201)]"

definition emptied_rows :: table where
  "emptied_rows = [(\<lparr>year = 2016, month = 5, day = 9\<rparr>, 10),
     (\<lparr>year = 2016, month = 5, day = 10\<rparr>, 20)]"

definition two_year_rows :: table where
  "two_year_rows = [(\<lparr>year = 2017, month = 6, day = 9\<rparr>, 10),
     (\<lparr>year = 2016, month = 5, day = 10\<rparr>, 20),
     (\<lparr>year = 2016, month = 5, day = 11\<rparr>, 30),
     (\<lparr>year = 2016, month = 7, day = 11\<rparr>, 1),
     (\<lparr>year = 2018, month = 7, day = 11\<rparr>, 100)]"

section \<open>The filter computes the spec's FilteredTable\<close>

lemma bind_res_simps [simp]:
  "bind_res (Inl e) k = Inl e" "bind_res (Inr v) k = k v"
  by (simp_all add: bind_res_def)

lemma select_Nil [simp]: "select m [] = []"
  by (simp add: select_def)

lemma select_Cons [simp]:
  "select (b # m) (x # xs) = (if b then x # select m xs else select m xs)"
  by (simp add: select_def)

lemma select_map_fst:
  "select (map P rows) (map fst rows) = map fst (filter P rows)"
  by (induction rows) simp_all

lemma select_map_snd:
  "select (map P rows) (map snd rows) = map snd (filter P rows)"
  by (induction rows) simp_all

lemma mask_and_map:
  "mask_and (map P xs) (map Q xs) = map (\<lambda>x. P x \<and> Q x) xs"
  by (induction xs) (simp_all add: mask_and_def)

lemma getitem_read_csv: "getitem (read_csv rows) ''value'' = Inr (IntCol (map snd rows))"
  by (simp add: getitem_def read_csv_def)

lemma quantile_IntCol:
  "0 \<le> q \<Longrightarrow> q \<le> 1 \<Longrightarrow> quantile (IntCol xs) q = Inr (linear_quantile xs q)"
  by (simp add: quantile_def)

lemma bool_getitem_read_csv:
  "bool_getitem (read_csv rows) (map P rows) = Inr (read_csv (filter P rows))"
  by (simp add: bool_getitem_def read_csv_def select_map_fst select_map_snd)

lemma outlier_filter_read_csv:
  "outlier_filter (read_csv rows) = Inr (read_csv (spec_FilteredTable rows))"
proof -
  let ?lo = "linear_quantile (map snd rows) 0.025"
  let ?hi = "linear_quantile (map snd rows) 0.975"
  let ?ge = "\<lambda>r. case ?lo of None \<Rightarrow> False | Some b \<Rightarrow> b \<le> of_int (snd r)"
  let ?le = "\<lambda>r. case ?hi of None \<Rightarrow> False | Some b \<Rightarrow> of_int (snd r) \<le> b"
  have lo: "quantile (IntCol (map snd rows)) 0.025 = Inr ?lo"
    by (rule quantile_IntCol) simp_all
  have hi: "quantile (IntCol (map snd rows)) 0.975 = Inr ?hi"
    by (rule quantile_IntCol) simp_all
  have ge: "series_ge (IntCol (map snd rows)) ?lo = Inr (map ?ge rows)"
    by (simp add: series_ge_def comp_def)
  have le: "series_le (IntCol (map snd rows)) ?hi = Inr (map ?le rows)"
    by (simp add: series_le_def comp_def)
  have keep: "filter (\<lambda>r. ?ge r \<and> ?le r) rows = spec_FilteredTable rows"
    unfolding spec_FilteredTable_def
    by (rule filter_cong) (auto split: option.splits)
  have "outlier_filter (read_csv rows)
          = bool_getitem (read_csv rows) (mask_and (map ?ge rows) (map ?le rows))"
    unfolding outlier_filter_def getitem_read_csv bind_res_simps lo hi ge le ..
  also have "\<dots> = Inr (read_csv (filter (\<lambda>r. ?ge r \<and> ?le r) rows))"
    unfolding mask_and_map by (rule bool_getitem_read_csv)
  finally show ?thesis
    unfolding keep .
qed

lemma import_module_loaded: "import_module rows empty_state = (Inr (), loaded rows)"
  by (simp add: import_module_def bind_st_def alloc_def set_global_df_def global_df_def
        deref_def lift_def empty_state_def outlier_filter_read_csv loaded_def fun_upd_twist)

lemma rows_of_read_csv: "rows_of (read_csv rows) = rows"
  by (simp add: rows_of_def read_csv_def zip_map_fst_snd)

lemma run_loaded: "run m rows = m (loaded rows)"
  by (simp add: run_def bind_st_def import_module_loaded)

lemma loaded_df: "df (loaded rows) = Some 1"
  and loaded_heap: "heap (loaded rows) 1 = Some (read_csv (spec_FilteredTable rows))"
  and loaded_nxt: "nxt (loaded rows) = 2"
  by (simp_all add: loaded_def)

lemma FilteredTable_eq: "FilteredTable rows = Inr (spec_FilteredTable rows)"
  by (simp add: FilteredTable_def run_loaded bind_st_def global_df_def deref_def lift_def
        loaded_def rows_of_read_csv)

section \<open>The grid of monthly means\<close>

lemma zip_map_map_same: "zip (map f xs) (map g xs) = map (\<lambda>x. (f x, g x)) xs"
  by (induction xs) simp_all

lemma groupby_mean_bar_frame:
  "groupby_mean (bar_frame F) ''year'' ''month'' ''value'' = Inr (monthly_means F)"
  by (simp add: groupby_mean_def getitem_def bar_frame_def monthly_means_def
        zip_map_map_same year_month_def[abs_def])

lemma bar_grid_run:
  assumes "df s = Some a" "heap s a = Some (read_csv F)"
  shows "bar_grid s = (Inr (unstack (monthly_means F)),
           s\<lparr>heap := (heap s)(nxt s \<mapsto> bar_frame F), nxt := Suc (nxt s)\<rparr>)"
  using assms
  by (simp add: bar_grid_def bind_st_def global_df_def copy_def deref_def alloc_def lift_def
        setitem_def index_year_def index_month_def read_csv_def comp_def
        groupby_mean_bar_frame[unfolded bar_frame_def] bar_frame_def)

lemma MonthlyAverageGrid_eq:
  "MonthlyAverageGrid rows = Inr (unstack (monthly_means (spec_FilteredTable rows)))"
  by (simp add: MonthlyAverageGrid_def run_loaded bar_grid_run[OF loaded_df loaded_heap])

lemma sort_remdups_unique:
  "sorted xs \<Longrightarrow> distinct xs \<Longrightarrow> set xs = set ys \<Longrightarrow> sort (remdups ys) = xs"
  by (metis distinct_remdups set_remdups set_sort distinct_sort sorted_sort sorted_distinct_set_unique)

lemma map_of_graph:
  "map_of (map (\<lambda>k. (k, f k)) ks) k = (if k \<in> set ks then Some (f k) else None)"
  by (induction ks) auto

lemma map_of_monthly_means:
  "map_of (monthly_means F) k =
     (if k \<in> year_month ` set F
      then Some (mean (group_values (map (\<lambda>r. (year_month r, snd r)) F) k)) else None)"
  by (simp add: monthly_means_def map_of_graph)

lemma grid_index_unstack:
  "grid_index (unstack (monthly_means F)) = sort (remdups (map (\<lambda>r. year (fst r)) F))"
proof -
  have "set (map (\<lambda>e. fst (fst e)) (monthly_means F)) = set (map (\<lambda>r. year (fst r)) F)"
    by (force simp add: monthly_means_def year_month_def image_iff)
  then have "sort (remdups (map (\<lambda>e. fst (fst e)) (monthly_means F)))
               = sort (remdups (map (\<lambda>r. year (fst r)) F))"
    by (intro sort_remdups_unique) simp_all
  then show ?thesis
    by (simp add: unstack_def Let_def)
qed

lemma grid_columns_unstack:
  "map fst (grid_columns (unstack (monthly_means F)))
     = sort (remdups (map (\<lambda>r. int (month (fst r))) F))"
proof -
  have "set (map (\<lambda>e. snd (fst e)) (monthly_means F)) = set (map (\<lambda>r. int (month (fst r))) F)"
    by (force simp add: monthly_means_def year_month_def image_iff)
  then have "sort (remdups (map (\<lambda>e. snd (fst e)) (monthly_means F)))
               = sort (remdups (map (\<lambda>r. int (month (fst r))) F))"
    by (intro sort_remdups_unique) simp_all
  then show ?thesis
    by (simp add: unstack_def Let_def comp_def)
qed

lemma cell_unstack: "cell (unstack sr) y m = map_of sr (y, m)"
proof -
  let ?ys = "sort (remdups (map (\<lambda>e. fst (fst e)) sr))"
  let ?ms = "sort (remdups (map (\<lambda>e. snd (fst e)) sr))"
  have cols: "map_of (grid_columns (unstack sr)) m
      = (if m \<in> set ?ms then Some (map (\<lambda>y. map_of sr (y, m)) ?ys) else None)"
    by (simp add: unstack_def Let_def map_of_graph)
  have row: "map_of (zip ?ys (map (\<lambda>y. map_of sr (y, m)) ?ys)) y
      = (if y \<in> set ?ys then Some (map_of sr (y, m)) else None)"
    by (simp add: map_of_zip_map)
  have absent: "map_of sr (y, m) = None" if "m \<notin> set ?ms \<or> y \<notin> set ?ys"
  proof -
    from that have "(y, m) \<notin> fst ` set sr"
      by force
    then show ?thesis
      by (simp add: map_of_eq_None_iff)
  qed
  show ?thesis
    unfolding cell_def cols
    using absent by (auto simp add: row unstack_def Let_def)
qed

lemma sorted_months_list: "sorted (map int [1..<13])" "distinct (map int [1..<13])"
  by (simp_all add: sorted_map distinct_map)

lemma months_all_iff:
  "sort (remdups (map (\<lambda>r. int (month (fst r))) F)) = map int [1..<13]
     \<longleftrightarrow> (\<lambda>r. month (fst r)) ` set F = {1..12}"
proof
  assume "sort (remdups (map (\<lambda>r. int (month (fst r))) F)) = map int [1..<13]"
  then have "set (sort (remdups (map (\<lambda>r. int (month (fst r))) F))) = set (map int [1..<13])"
    by (rule arg_cong)
  then have "int ` ((\<lambda>r. month (fst r)) ` set F) = int ` {1..<13}"
    by (simp add: image_image)
  then have "(\<lambda>r. month (fst r)) ` set F = {1..<13}"
    by (simp add: inj_image_eq_iff)
  moreover have "{1..12::nat} = {1..<13}" by auto
  ultimately show "(\<lambda>r. month (fst r)) ` set F = {1..12}"
    by simp
next
  assume a: "(\<lambda>r. month (fst r)) ` set F = {1..12}"
  have "{1..12::nat} = {1..<13}" by auto
  with a have "int ` ((\<lambda>r. month (fst r)) ` set F) = int ` {1..<13}"
    by simp
  then have "set (map int [1..<13]) = set (map (\<lambda>r. int (month (fst r))) F)"
    by (simp add: image_image)
  then show "sort (remdups (map (\<lambda>r. int (month (fst r))) F)) = map int [1..<13]"
    using sorted_months_list by (intro sort_remdups_unique)
qed

section \<open>What each renderer computes\<close>

lemma draw_line_plot_run:
  assumes "df s = Some a" "heap s a = Some (read_csv F)"
  shows "draw_line_plot s =
    (Inr \<lparr>figsize = (15, 5),
          axs = [\<lparr>title = ''Daily freeCodeCamp Forum Page Views 5/2016-12/2019'',
                  xlabel = ''Date'', ylabel = ''Page Views'', xticklabels = [],
                  artists = [Line2D (map fst F) (map snd F) ''red'' 1], the_legend = None\<rparr>]\<rparr>,
     s\<lparr>files := (files s)(''line_plot.png'' \<mapsto>
         \<lparr>figsize = (15, 5),
          axs = [\<lparr>title = ''Daily freeCodeCamp Forum Page Views 5/2016-12/2019'',
                  xlabel = ''Date'', ylabel = ''Page Views'', xticklabels = [],
                  artists = [Line2D (map fst F) (map snd F) ''red'' 1], the_legend = None\<rparr>]\<rparr>)\<rparr>)"
  using assms
  by (simp add: Let_def draw_line_plot_def bind_st_def global_df_def deref_def lift_def getitem_def
        read_csv_def on_ax_res_def on_ax_def plot_def subplots_def new_axes_def savefig_def
        set_title_def set_xlabel_def set_ylabel_def)

lemma draw_bar_plot_run:
  assumes "df s = Some a" "heap s a = Some (read_csv F)" "F \<noteq> []"
  shows "\<exists>fig. draw_bar_plot s =
    (Inr fig, s\<lparr>heap := (heap s)(nxt s \<mapsto> bar_frame F), nxt := Suc (nxt s),
                files := (files s)(''bar_plot.png'' \<mapsto> fig)\<rparr>) \<and>
     fig = \<lparr>figsize = (10, 8),
          axs = [\<lparr>title = [], xlabel = ''Years'', ylabel = ''Average Page Views'',
                  xticklabels = map IntLabel (grid_index (unstack (monthly_means F))),
                  artists = map (\<lambda>(m, c). BarContainer (IntLabel m) c)
                              (grid_columns (unstack (monthly_means F))),
                  the_legend = Some (''Months'',
                    zip (map (\<lambda>(m, c). BarContainer (IntLabel m) c)
                              (grid_columns (unstack (monthly_means F))))
                        (map StrLabel months))\<rparr>]\<rparr>"
proof -
  have "map fst (grid_columns (unstack (monthly_means F))) \<noteq> []"
    using assms(3) unfolding grid_columns_unstack
    by (metis list.map_disc_iff remdups_eq_nil_iff set_empty set_sort)
  then have ne: "grid_columns (unstack (monthly_means F)) \<noteq> []"
    by auto
  show ?thesis
    by (simp add: Let_def draw_bar_plot_def bind_st_def bar_grid_run[OF assms(1,2)] lift_def
        on_ax_res_def on_ax_def plot_bar_def ne subplots_def new_axes_def savefig_def
        set_xlabel_def set_ylabel_def legend_def)
qed

lemma draw_bar_plot_empty:
  assumes "df s = Some a" "heap s a = Some (read_csv [])"
  shows "draw_bar_plot s = (Inl (TypeError ''no numeric data to plot''),
           s\<lparr>heap := (heap s)(nxt s \<mapsto> bar_frame []), nxt := Suc (nxt s)\<rparr>)"
  by (simp add: Let_def draw_bar_plot_def bind_st_def bar_grid_run[OF assms] lift_def
        on_ax_res_def plot_bar_def subplots_def unstack_def monthly_means_def)

text \<open>
  The legend of the bar chart in general: its entries are the first bar containers, at
  most twelve, and they carry the first month names, as many as the grid has columns.
\<close>

lemma map_snd_zip_prefix: "map snd (zip xs ys) = take (length xs) ys"
  by (induction xs arbitrary: ys) (simp_all add: take_Cons' zip_Cons1 split: list.splits)

lemma bar_legend_labels:
  assumes "df s = Some a" "heap s a = Some (read_csv F)" "F \<noteq> []"
  shows "\<exists>fig s' entries. draw_bar_plot s = (Inr fig, s') \<and>
     the_legend (axs fig ! 0) = Some (''Months'', entries) \<and>
     map fst entries = take 12 (artists (axs fig ! 0)) \<and>
     map snd entries
       = map StrLabel (take (length (grid_months (unstack (monthly_means F)))) months)"
proof -
  from draw_bar_plot_run[OF assms] obtain fig where
    r: "draw_bar_plot s =
    (Inr fig, s\<lparr>heap := (heap s)(nxt s \<mapsto> bar_frame F), nxt := Suc (nxt s),
                files := (files s)(''bar_plot.png'' \<mapsto> fig)\<rparr>)"
    and f: "fig = \<lparr>figsize = (10, 8),
          axs = [\<lparr>title = [], xlabel = ''Years'', ylabel = ''Average Page Views'',
                  xticklabels = map IntLabel (grid_index (unstack (monthly_means F))),
                  artists = map (\<lambda>(m, c). BarContainer (IntLabel m) c)
                              (grid_columns (unstack (monthly_means F))),
                  the_legend = Some (''Months'',
                    zip (map (\<lambda>(m, c). BarContainer (IntLabel m) c)
                              (grid_columns (unstack (monthly_means F))))
                        (map StrLabel months))\<rparr>]\<rparr>"
    by (elim exE conjE)
  let ?bars = "map (\<lambda>(m, c). BarContainer (IntLabel m) c) (grid_columns (unstack (monthly_means F)))"
  have l: "the_legend (axs fig ! 0) = Some (''Months'', zip ?bars (map StrLabel months))"
    and ar: "artists (axs fig ! 0) = ?bars"
    unfolding f by simp_all
  have 1: "map snd (zip ?bars (map StrLabel months))
      = map StrLabel (take (length (grid_months (unstack (monthly_means F)))) months)"
    by (simp add: map_snd_zip_prefix grid_months_def take_map)
  have "length (map StrLabel months) = 12"
    by (simp add: months_def)
  then have 2: "map fst (zip ?bars (map StrLabel months)) = take 12 ?bars"
    by (metis map_fst_zip_take min.commute take_all_iff linorder_le_cases min_def)
  with ar have 3: "map fst (zip ?bars (map StrLabel months)) = take 12 (artists (axs fig ! 0))"
    by simp
  from r l 3 1 show ?thesis
    by (intro exI conjI)
qed

lemma box_frame_run:
  assumes "df s = Some a" "heap s a = Some (read_csv F)"
  shows "box_frame s = (Inr (nxt s),
           s\<lparr>heap := (heap s)(nxt s \<mapsto> box_data F), nxt := Suc (nxt s)\<rparr>)"
  using assms
  by (simp add: box_frame_def bind_st_def global_df_def copy_def deref_def alloc_def lift_def
        setitem_def reset_index_def read_csv_def index_column_def getitem_def date_col_def
        comp_def box_data_def)

lemma draw_box_plot_run:
  assumes "df s = Some a" "heap s a = Some (read_csv F)" "F \<noteq> []"
  shows "\<exists>fig. draw_box_plot s =
     (Inr fig, s\<lparr>heap := (heap s)(nxt s \<mapsto> box_data F), nxt := Suc (nxt s),
                 files := (files s)(''box_plot.png'' \<mapsto> fig)\<rparr>) \<and>
     fig = \<lparr>figsize = (20, 8),
          axs = [\<lparr>title = ''Year-wise Box Plot (Trend)'', xlabel = ''Year'',
                  ylabel = ''Page Views'',
                  xticklabels = map IntLabel (sort (remdups (map (\<lambda>r. year (fst r)) F))),
                  artists = boxes (map IntLabel (sort (remdups (map (\<lambda>r. year (fst r)) F))))
                              (map (\<lambda>r. (IntLabel (year (fst r)), snd r)) F),
                  the_legend = None\<rparr>,
                 \<lparr>title = ''Month-wise Box Plot (Seasonality)'', xlabel = ''Month'',
                  ylabel = ''Page Views'',
                  xticklabels = map StrLabel month_order,
                  artists = boxes (map StrLabel month_order)
                              (map (\<lambda>r. (StrLabel (strftime_b (fst r)), snd r)) F),
                  the_legend = None\<rparr>]\<rparr>"
  using assms(3)
  by (simp add: Let_def draw_box_plot_def bind_st_def box_frame_run[OF assms(1,2)] lift_def
        deref_def on_ax_res_def on_ax_def boxplot_def getitem_def labels_of_def
        categorical_order_def subplots_def new_axes_def savefig_def numeral_2_eq_2 box_data_def
        set_title_def set_xlabel_def set_ylabel_def zip_map_map_same comp_def)

lemma draw_box_plot_empty:
  assumes "df s = Some a" "heap s a = Some (read_csv [])"
  shows "\<exists>fig. draw_box_plot s =
     (Inr fig, s\<lparr>heap := (heap s)(nxt s \<mapsto> box_data []), nxt := Suc (nxt s),
                 files := (files s)(''box_plot.png'' \<mapsto> fig)\<rparr>) \<and>
     fig = \<lparr>figsize = (20, 8),
          axs = [\<lparr>title = ''Year-wise Box Plot (Trend)'', xlabel = ''Year'',
                  ylabel = ''Page Views'', xticklabels = [], artists = [],
                  the_legend = None\<rparr>,
                 \<lparr>title = ''Month-wise Box Plot (Seasonality)'', xlabel = ''Month'',
                  ylabel = ''Page Views'', xticklabels = [], artists = [],
                  the_legend = None\<rparr>]\<rparr>"
  by (simp add: Let_def draw_box_plot_def bind_st_def box_frame_run[OF assms] lift_def
        deref_def on_ax_res_def on_ax_def boxplot_def getitem_def labels_of_def
        subplots_def new_axes_def savefig_def numeral_2_eq_2 box_data_def
        set_title_def set_xlabel_def set_ylabel_def)

lemma draw_box_plot_text:
  assumes "df s = Some a" "heap s a = Some (read_csv F)"
  shows "\<exists>fig. draw_box_plot s =
     (Inr fig, s\<lparr>heap := (heap s)(nxt s \<mapsto> box_data F), nxt := Suc (nxt s),
                 files := (files s)(''box_plot.png'' \<mapsto> fig)\<rparr>) \<and>
     title (axs fig ! 0) = ''Year-wise Box Plot (Trend)'' \<and>
     xlabel (axs fig ! 0) = ''Year'' \<and> ylabel (axs fig ! 0) = ''Page Views'' \<and>
     title (axs fig ! 1) = ''Month-wise Box Plot (Seasonality)'' \<and>
     xlabel (axs fig ! 1) = ''Month'' \<and> ylabel (axs fig ! 1) = ''Page Views''"
proof (cases "F = []")
  case True
  with assms have h: "heap s a = Some (read_csv [])"
    by simp
  from draw_box_plot_empty[OF assms(1) h] True show ?thesis
    by (elim exE conjE) simp
next
  case False
  from draw_box_plot_run[OF assms False] show ?thesis
    by (elim exE conjE) simp
qed

section \<open>The renderers and the store\<close>

lemma bar_grid_frame:
  assumes "df s = Some a" "a < nxt s"
  shows "heap (snd (bar_grid s)) a = heap s a \<and> df (snd (bar_grid s)) = df s
          \<and> nxt s \<le> nxt (snd (bar_grid s)) \<and> files (snd (bar_grid s)) = files s"
  using assms
  by (auto simp add: bar_grid_def bind_st_def global_df_def copy_def deref_def alloc_def lift_def
        setitem_def split: option.splits sum.splits prod.splits if_splits)

lemma box_frame_frame:
  assumes "df s = Some a" "a < nxt s"
  shows "heap (snd (box_frame s)) a = heap s a \<and> df (snd (box_frame s)) = df s
          \<and> nxt s \<le> nxt (snd (box_frame s))"
  using assms
  by (auto simp add: Let_def box_frame_def bind_st_def global_df_def copy_def deref_def alloc_def lift_def
        setitem_def reset_index_def split: option.splits sum.splits prod.splits if_splits)

lemma draw_line_plot_frame:
  "heap (snd (draw_line_plot s)) = heap s \<and> df (snd (draw_line_plot s)) = df s
     \<and> nxt (snd (draw_line_plot s)) = nxt s"
  by (auto simp add: Let_def draw_line_plot_def bind_st_def global_df_def deref_def lift_def
        savefig_def split: option.splits sum.splits prod.splits)

lemma draw_bar_plot_frame:
  assumes "df s = Some a" "a < nxt s"
  shows "heap (snd (draw_bar_plot s)) a = heap s a \<and> df (snd (draw_bar_plot s)) = df s
          \<and> nxt s \<le> nxt (snd (draw_bar_plot s))"
proof (cases "bar_grid s")
  case (Pair r s1)
  with bar_grid_frame[OF assms] have s1: "heap s1 a = heap s a" "df s1 = df s" "nxt s \<le> nxt s1"
    by simp_all
  show ?thesis
  proof (cases r)
    case (Inl e)
    with Pair s1 show ?thesis by (simp add: draw_bar_plot_def bind_st_def)
  next
    case (Inr g)
    with Pair s1 show ?thesis
      by (auto simp add: Let_def draw_bar_plot_def bind_st_def lift_def savefig_def
            split: sum.splits prod.splits)
  qed
qed

lemma draw_box_plot_frame:
  assumes "df s = Some a" "a < nxt s"
  shows "heap (snd (draw_box_plot s)) a = heap s a \<and> df (snd (draw_box_plot s)) = df s
          \<and> nxt s \<le> nxt (snd (draw_box_plot s))"
proof (cases "box_frame s")
  case (Pair r s1)
  with box_frame_frame[OF assms] have s1: "heap s1 a = heap s a" "df s1 = df s" "nxt s \<le> nxt s1"
    by simp_all
  show ?thesis
  proof (cases r)
    case (Inl e)
    with Pair s1 show ?thesis by (simp add: draw_box_plot_def bind_st_def)
  next
    case (Inr b)
    with Pair s1 show ?thesis
      by (auto simp add: Let_def draw_box_plot_def bind_st_def lift_def savefig_def deref_def
            split: sum.splits prod.splits option.splits)
  qed
qed

section \<open>Claims about the outlier filter\<close>

text \<open>
  C1. The rows retained in FilteredTable are exactly the rows of the loaded table whose
  value lies between the 2.5th and the 97.5th percentile, bounds included, both
  percentiles being taken once over the value column of the whole loaded table.
\<close>

theorem filtered_rows_within_quantiles:
  "FilteredTable rows = Inr (spec_FilteredTable rows)"
  by (rule FilteredTable_eq)

text \<open>
  C2 (as the spec states it: on the three rows of the scenario the filter removes no row)
  does not hold. With linear interpolation the 2.5th percentile of 1201, 1716, 2329 is
  1226.75 and the 97.5th is 2298.35, so the rows with 1201 and 2329 fall outside.
\<close>

theorem scenario_filter_removes_rows: "FilteredTable scenario_rows \<noteq> Inr scenario_rows"
proof -
  have "FilteredTable scenario_rows = Inr [(\<lparr>year = 2016, month = 5, day = 11\<rparr>, 1716)]"
    by code_simp
  then show ?thesis
    by (simp add: scenario_rows_def)
qed

text \<open>
  C2, amended. On the three rows of the scenario the filter keeps exactly the row
  (2016-05-11, 1716) and removes the rows holding the smallest and the largest value.
\<close>

theorem scenario_filter_keeps_middle_row:
  "FilteredTable scenario_rows = Inr [(\<lparr>year = 2016, month = 5, day = 11\<rparr>, 1716)]"
  by code_simp

text \<open>
  C6. For every input table, FilteredTable is a part of Table: its rows are rows of
  Table, in Table's order and no more often than there, so it is no longer than Table.
\<close>

theorem filtered_table_subset:
  "\<exists>F. FilteredTable rows = Inr F \<and> subseq F rows \<and> set F \<subseteq> set rows
       \<and> length F \<le> length rows"
  by (simp add: FilteredTable_eq spec_FilteredTable_def)

theorem filtered_table_subset_witness:
  "\<exists>F. FilteredTable scenario_rows = Inr F \<and> subseq F scenario_rows
       \<and> set F \<subseteq> set scenario_rows \<and> length F \<le> length scenario_rows"
  by (rule filtered_table_subset)

section \<open>Claims about the grid of monthly means\<close>

text \<open>
  C3 (as the spec states it: the columns of the grid are exactly the months 1 to 12) does
  not hold. For a table whose only row lies in May the grid has the single column 5.
\<close>

theorem single_month_grid_has_one_column:
  "MonthlyAverageGrid single_may_row
     = Inr \<lparr>grid_index = [2016], grid_columns = [(5, [Some 1201])]\<rparr>
   \<and> grid_months \<lparr>grid_index = [2016], grid_columns = [(5, [Some 1201])]\<rparr>
       \<noteq> [1, 2, 3, 4, 5, 6, 7, 8, 9, 10, 11, 12]"
proof -
  have "MonthlyAverageGrid single_may_row
     = Inr \<lparr>grid_index = [2016], grid_columns = [(5, [Some 1201])]\<rparr>"
    by code_simp
  then show ?thesis
    by (simp add: grid_months_def)
qed

text \<open>
  C3, amended. The grid has one row per distinct year of FilteredTable, in ascending
  order; its columns are the distinct month numbers that occur in FilteredTable, in
  ascending order whatever the order of the rows, and they are 1 to 12 exactly when
  every month occurs; the cell of a (year, month) group that is present holds the
  arithmetic mean of the group's values.
\<close>

theorem monthly_grid_structure:
  "\<exists>F g. FilteredTable rows = Inr F \<and> MonthlyAverageGrid rows = Inr g \<and>
     sorted (grid_index g) \<and> distinct (grid_index g) \<and>
     set (grid_index g) = (\<lambda>r. year (fst r)) ` set F \<and>
     sorted (grid_months g) \<and> distinct (grid_months g) \<and>
     set (grid_months g) = (\<lambda>r. int (month (fst r))) ` set F \<and>
     (grid_months g = map int [1..<13] \<longleftrightarrow> (\<lambda>r. month (fst r)) ` set F = {1..12}) \<and>
     (\<forall>y m. (y, m) \<in> year_month ` set F \<longrightarrow>
        cell g y m = Some (mean (group_values (map (\<lambda>r. (year_month r, snd r)) F) (y, m))))"
proof -
  let ?F = "spec_FilteredTable rows"
  let ?g = "unstack (monthly_means ?F)"
  have gm: "grid_months ?g = sort (remdups (map (\<lambda>r. int (month (fst r))) ?F))"
    by (simp add: grid_months_def grid_columns_unstack)
  have 1: "sorted (grid_index ?g) \<and> distinct (grid_index ?g) \<and>
       set (grid_index ?g) = (\<lambda>r. year (fst r)) ` set ?F"
    by (simp add: grid_index_unstack)
  have 2: "sorted (grid_months ?g) \<and> distinct (grid_months ?g) \<and>
       set (grid_months ?g) = (\<lambda>r. int (month (fst r))) ` set ?F"
    by (simp add: gm)
  have 3: "grid_months ?g = map int [1..<13] \<longleftrightarrow> (\<lambda>r. month (fst r)) ` set ?F = {1..12}"
    unfolding gm by (rule months_all_iff)
  have 4: "\<forall>y m. (y, m) \<in> year_month ` set ?F \<longrightarrow>
        cell ?g y m = Some (mean (group_values (map (\<lambda>r. (year_month r, snd r)) ?F) (y, m)))"
    by (simp add: cell_unstack map_of_monthly_means)
  show ?thesis
    apply (rule exI[of _ ?F])
    apply (rule exI[of _ ?g])
    using FilteredTable_eq[of rows] MonthlyAverageGrid_eq[of rows] 1 2 3 4
    apply (intro conjI)
    apply (elim conjE, assumption)+
    done
qed


theorem monthly_grid_structure_witness:
  "\<exists>g. MonthlyAverageGrid two_year_rows = Inr g \<and> grid_index g = [2016, 2017]
      \<and> grid_months g = [5, 6]
      \<and> (2016, 5) \<in> year_month ` set [(\<lparr>year = 2017, month = 6, day = 9\<rparr>, 10),
            (\<lparr>year = 2016, month = 5, day = 10\<rparr>, 20), (\<lparr>year = 2016, month = 5, day = 11\<rparr>, 30)]
      \<and> cell g 2016 5 = Some 25"
proof -
  let ?F = "[(\<lparr>year = 2017, month = 6, day = 9\<rparr>, 10),
            (\<lparr>year = 2016, month = 5, day = 10\<rparr>, 20), (\<lparr>year = 2016, month = 5, day = 11\<rparr>, 30::int)]"
  let ?G = "\<lparr>grid_index = [2016, 2017], grid_columns = [(5, [Some 25, None]), (6, [None, Some 10])]\<rparr>"
  obtain F g where F: "FilteredTable two_year_rows = Inr F"
    and g: "MonthlyAverageGrid two_year_rows = Inr g"
    and c: "\<forall>y m. (y, m) \<in> year_month ` set F \<longrightarrow>
        cell g y m = Some (mean (group_values (map (\<lambda>r. (year_month r, snd r)) F) (y, m)))"
    using monthly_grid_structure[of two_year_rows] by (elim exE conjE)
  have "FilteredTable two_year_rows = Inr ?F"
    by code_simp
  with F have F': "F = ?F" by simp
  have k: "(2016, 5) \<in> year_month ` set ?F"
    by (simp add: year_month_def)
  from c have "(2016, 5) \<in> year_month ` set F \<longrightarrow> cell g 2016 5
      = Some (mean (group_values (map (\<lambda>r. (year_month r, snd r)) F) (2016, 5)))"
    by (elim allE)
  with k have "cell g 2016 5
      = Some (mean (group_values (map (\<lambda>r. (year_month r, snd r)) ?F) (2016, 5)))"
    unfolding F' by (rule mp[rotated])
  also have "mean (group_values (map (\<lambda>r. (year_month r, snd r)) ?F) (2016, 5)) = 25"
    by (simp add: year_month_def group_values_def mean_def)
  finally have c25: "cell g 2016 5 = Some 25" .
  have "MonthlyAverageGrid two_year_rows = Inr ?G"
    by code_simp
  with g have G: "g = ?G" by simp
  have gi: "grid_index g = [2016, 2017]" and gmo: "grid_months g = [5, 6]"
    unfolding G by (simp_all add: grid_months_def)
  from g gi gmo k c25 show ?thesis
    by (intro exI[of _ g] conjI)
qed

text \<open>
  C7. A (year, month) combination without rows in FilteredTable has no number in the
  grid: its cell is absent (NaN where the year and the month label a row and a column),
  not zero.
\<close>

theorem absent_group_has_no_cell_value:
  "\<exists>F g. FilteredTable rows = Inr F \<and> MonthlyAverageGrid rows = Inr g \<and>
     (\<forall>y m. (y, m) \<notin> year_month ` set F \<longrightarrow> cell g y m = None \<and> cell g y m \<noteq> Some 0)"
proof -
  let ?F = "spec_FilteredTable rows"
  let ?g = "unstack (monthly_means ?F)"
  have "\<forall>y m. (y, m) \<notin> year_month ` set ?F \<longrightarrow> cell ?g y m = None \<and> cell ?g y m \<noteq> Some 0"
    by (simp add: cell_unstack map_of_monthly_means)
  with FilteredTable_eq[of rows] MonthlyAverageGrid_eq[of rows] show ?thesis
    by (intro exI[of _ ?F] exI[of _ ?g] conjI)
qed

theorem absent_group_has_no_cell_value_witness:
  "\<exists>g. MonthlyAverageGrid two_year_rows
        = Inr \<lparr>grid_index = [2016, 2017],
               grid_columns = [(5, [Some 25, None]), (6, [None, Some 10])]\<rparr>
      \<and> MonthlyAverageGrid two_year_rows = Inr g
      \<and> (2016, 6) \<notin> year_month ` set [(\<lparr>year = 2017, month = 6, day = 9\<rparr>, 10),
            (\<lparr>year = 2016, month = 5, day = 10\<rparr>, 20), (\<lparr>year = 2016, month = 5, day = 11\<rparr>, 30)]
      \<and> cell g 2016 6 = None \<and> cell g 2016 6 \<noteq> Some 0"
proof -
  let ?F = "[(\<lparr>year = 2017, month = 6, day = 9\<rparr>, 10),
            (\<lparr>year = 2016, month = 5, day = 10\<rparr>, 20), (\<lparr>year = 2016, month = 5, day = 11\<rparr>, 30::int)]"
  obtain F g where F: "FilteredTable two_year_rows = Inr F"
    and g: "MonthlyAverageGrid two_year_rows = Inr g"
    and c: "\<forall>y m. (y, m) \<notin> year_month ` set F \<longrightarrow> cell g y m = None \<and> cell g y m \<noteq> Some 0"
    using absent_group_has_no_cell_value[of two_year_rows] by (elim exE conjE)
  have "FilteredTable two_year_rows = Inr ?F"
    by code_simp
  with F have F': "F = ?F" by simp
  have k: "(2016, 6) \<notin> year_month ` set ?F"
    by (simp add: year_month_def)
  from c have "(2016, 6) \<notin> year_month ` set F \<longrightarrow> cell g 2016 6 = None \<and> cell g 2016 6 \<noteq> Some 0"
    by (elim allE)
  with k have n: "cell g 2016 6 = None \<and> cell g 2016 6 \<noteq> Some 0"
    unfolding F' by (rule mp[rotated])
  have G: "MonthlyAverageGrid two_year_rows
        = Inr \<lparr>grid_index = [2016, 2017],
               grid_columns = [(5, [Some 25, None]), (6, [None, Some 10])]\<rparr>"
    by code_simp
  from G g k n show ?thesis
    by (intro exI[of _ g] conjI) (elim conjE, assumption)+
qed

section \<open>Claims about the rendered charts\<close>

text \<open>
  C5 (for every input the legend of the bar chart holds the twelve month names) is what
  the code aims at and misses. For a table whose only row lies in May the chart has one
  bar container, for month 5, and the legend has the single entry January, attached to
  that container.
\<close>

theorem single_month_legend_is_january:
  "fst (run draw_bar_plot single_may_row) = Inr \<lparr>figsize = (10, 8),
     axs = [\<lparr>title = [], xlabel = ''Years'', ylabel = ''Average Page Views'',
             xticklabels = [IntLabel 2016],
             artists = [BarContainer (IntLabel 5) [Some 1201]],
             the_legend = Some (''Months'',
               [(BarContainer (IntLabel 5) [Some 1201], StrLabel ''January'')])\<rparr>]\<rparr>"
  by code_simp

text \<open>
  C4 (as the spec states it: for every input the month-wise box plot has the groups
  Jan, ..., Dec) does not hold. The filter removes both rows of a table with the values
  10 and 20; on the empty table seaborn draws nothing, and the month-wise plot has its
  title and axis labels and no group at all.
\<close>

theorem emptied_table_month_plot_has_no_groups:
  "FilteredTable emptied_rows = Inr [] \<and>
   fst (run draw_box_plot emptied_rows) = Inr \<lparr>figsize = (20, 8),
     axs = [\<lparr>title = ''Year-wise Box Plot (Trend)'', xlabel = ''Year'',
             ylabel = ''Page Views'', xticklabels = [], artists = [], the_legend = None\<rparr>,
            \<lparr>title = ''Month-wise Box Plot (Seasonality)'', xlabel = ''Month'',
             ylabel = ''Page Views'', xticklabels = [], artists = [], the_legend = None\<rparr>]\<rparr> \<and>
   xticklabels \<lparr>title = ''Month-wise Box Plot (Seasonality)'', xlabel = ''Month'',
             ylabel = ''Page Views'', xticklabels = [], artists = [], the_legend = None\<rparr>
     \<noteq> map StrLabel [''Jan'', ''Feb'', ''Mar'', ''Apr'', ''May'', ''Jun'', ''Jul'', ''Aug'',
           ''Sep'', ''Oct'', ''Nov'', ''Dec'']"
proof -
  have 1: "FilteredTable emptied_rows = Inr []"
    by code_simp
  have 2: "fst (run draw_box_plot emptied_rows) = Inr \<lparr>figsize = (20, 8),
     axs = [\<lparr>title = ''Year-wise Box Plot (Trend)'', xlabel = ''Year'',
             ylabel = ''Page Views'', xticklabels = [], artists = [], the_legend = None\<rparr>,
            \<lparr>title = ''Month-wise Box Plot (Seasonality)'', xlabel = ''Month'',
             ylabel = ''Page Views'', xticklabels = [], artists = [], the_legend = None\<rparr>]\<rparr>"
    by code_simp
  from 1 2 show ?thesis
    by simp
qed

text \<open>
  C4, amended. Whatever rows the filtered table holds, as long as it holds one (any
  months, in any order, starting in any month, covering only part of a year), the
  month-wise box plot has the twelve groups Jan, Feb, ..., Dec in this order, never
  another order, and draws for each group that has rows a box at the group's position.
  On an empty filtered table the month-wise plot has no groups.
\<close>

theorem month_box_order:
  assumes "df s = Some a" and "heap s a = Some (read_csv F)"
  shows "(F \<noteq> [] \<longrightarrow>
           (\<exists>fig s'. draw_box_plot s = (Inr fig, s') \<and> length (axs fig) = 2 \<and>
              xticklabels (axs fig ! 1) =
                map StrLabel [''Jan'', ''Feb'', ''Mar'', ''Apr'', ''May'', ''Jun'', ''Jul'',
                  ''Aug'', ''Sep'', ''Oct'', ''Nov'', ''Dec''] \<and>
              artists (axs fig ! 1) =
                boxes (map StrLabel [''Jan'', ''Feb'', ''Mar'', ''Apr'', ''May'', ''Jun'',
                         ''Jul'', ''Aug'', ''Sep'', ''Oct'', ''Nov'', ''Dec''])
                  (map (\<lambda>r. (StrLabel (strftime_b (fst r)), snd r)) F))) \<and>
         (F = [] \<longrightarrow>
           (\<exists>fig s'. draw_box_plot s = (Inr fig, s') \<and> length (axs fig) = 2 \<and>
              xticklabels (axs fig ! 1) = [] \<and> artists (axs fig ! 1) = []))"
proof (intro conjI impI)
  assume ne: "F \<noteq> []"
  from draw_box_plot_run[OF assms ne] obtain fig where
    r: "draw_box_plot s =
     (Inr fig, s\<lparr>heap := (heap s)(nxt s \<mapsto> box_data F), nxt := Suc (nxt s),
                 files := (files s)(''box_plot.png'' \<mapsto> fig)\<rparr>)"
    and f: "fig = \<lparr>figsize = (20, 8),
          axs = [\<lparr>title = ''Year-wise Box Plot (Trend)'', xlabel = ''Year'',
                  ylabel = ''Page Views'',
                  xticklabels = map IntLabel (sort (remdups (map (\<lambda>r. year (fst r)) F))),
                  artists = boxes (map IntLabel (sort (remdups (map (\<lambda>r. year (fst r)) F))))
                              (map (\<lambda>r. (IntLabel (year (fst r)), snd r)) F),
                  the_legend = None\<rparr>,
                 \<lparr>title = ''Month-wise Box Plot (Seasonality)'', xlabel = ''Month'',
                  ylabel = ''Page Views'',
                  xticklabels = map StrLabel month_order,
                  artists = boxes (map StrLabel month_order)
                              (map (\<lambda>r. (StrLabel (strftime_b (fst r)), snd r)) F),
                  the_legend = None\<rparr>]\<rparr>"
    by (elim exE conjE)
  have "length (axs fig) = 2"
    and "xticklabels (axs fig ! 1) = map StrLabel month_order"
    and "artists (axs fig ! 1) = boxes (map StrLabel month_order)
                              (map (\<lambda>r. (StrLabel (strftime_b (fst r)), snd r)) F)"
    unfolding f by simp_all
  with r show "\<exists>fig s'. draw_box_plot s = (Inr fig, s') \<and> length (axs fig) = 2 \<and>
              xticklabels (axs fig ! 1) =
                map StrLabel [''Jan'', ''Feb'', ''Mar'', ''Apr'', ''May'', ''Jun'', ''Jul'',
                  ''Aug'', ''Sep'', ''Oct'', ''Nov'', ''Dec''] \<and>
              artists (axs fig ! 1) =
                boxes (map StrLabel [''Jan'', ''Feb'', ''Mar'', ''Apr'', ''May'', ''Jun'',
                         ''Jul'', ''Aug'', ''Sep'', ''Oct'', ''Nov'', ''Dec''])
                  (map (\<lambda>r. (StrLabel (strftime_b (fst r)), snd r)) F)"
    unfolding month_order_def by (intro exI conjI)
next
  assume "F = []"
  with assms have h: "heap s a = Some (read_csv [])"
    by simp
  from draw_box_plot_empty[OF assms(1) h]
  show "\<exists>fig s'. draw_box_plot s = (Inr fig, s') \<and> length (axs fig) = 2 \<and>
              xticklabels (axs fig ! 1) = [] \<and> artists (axs fig ! 1) = []"
    by (elim exE conjE) simp
qed

theorem month_box_order_witness:
  "df (snd (import_module two_year_rows empty_state)) = Some 1 \<and>
   heap (snd (import_module two_year_rows empty_state)) 1
     = Some (read_csv [(\<lparr>year = 2017, month = 6, day = 9\<rparr>, 10),
          (\<lparr>year = 2016, month = 5, day = 10\<rparr>, 20),
          (\<lparr>year = 2016, month = 5, day = 11\<rparr>, 30)]) \<and>
   [(\<lparr>year = 2017, month = 6, day = 9\<rparr>, 10::int),
    (\<lparr>year = 2016, month = 5, day = 10\<rparr>, 20),
    (\<lparr>year = 2016, month = 5, day = 11\<rparr>, 30)] \<noteq> [] \<and>
   (\<exists>fig s'. draw_box_plot (snd (import_module two_year_rows empty_state)) = (Inr fig, s') \<and>
      xticklabels (axs fig ! 1) =
        map StrLabel [''Jan'', ''Feb'', ''Mar'', ''Apr'', ''May'', ''Jun'', ''Jul'', ''Aug'',
          ''Sep'', ''Oct'', ''Nov'', ''Dec''] \<and>
      artists (axs fig ! 1) = [Box 4 [20, 30], Box 5 [10]]) \<and>
   df (snd (import_module emptied_rows empty_state)) = Some 1 \<and>
   heap (snd (import_module emptied_rows empty_state)) 1 = Some (read_csv []) \<and>
   (\<exists>fig s'. draw_box_plot (snd (import_module emptied_rows empty_state)) = (Inr fig, s') \<and>
      xticklabels (axs fig ! 1) = [] \<and> artists (axs fig ! 1) = [])"
proof -
  let ?s = "snd (import_module two_year_rows empty_state)"
  let ?t = "snd (import_module emptied_rows empty_state)"
  let ?F = "[(\<lparr>year = 2017, month = 6, day = 9\<rparr>, 10::int),
    (\<lparr>year = 2016, month = 5, day = 10\<rparr>, 20),
    (\<lparr>year = 2016, month = 5, day = 11\<rparr>, 30)]"
  have d: "df ?s = Some 1"
    by code_simp
  have h: "heap ?s 1 = Some (read_csv ?F)"
    by code_simp
  have n: "?F \<noteq> []"
    by simp
  have d0: "df ?t = Some 1"
    by code_simp
  have h0: "heap ?t 1 = Some (read_csv [])"
    by code_simp
  have b: "boxes (map StrLabel [''Jan'', ''Feb'', ''Mar'', ''Apr'', ''May'', ''Jun'', ''Jul'',
                ''Aug'', ''Sep'', ''Oct'', ''Nov'', ''Dec''])
         (map (\<lambda>r. (StrLabel (strftime_b (fst r)), snd r)) ?F) = [Box 4 [20, 30], Box 5 [10]]"
    by code_simp
  from month_box_order[OF d h] n
  have "\<exists>fig s'. draw_box_plot ?s = (Inr fig, s') \<and> length (axs fig) = 2 \<and>
      xticklabels (axs fig ! 1) =
        map StrLabel [''Jan'', ''Feb'', ''Mar'', ''Apr'', ''May'', ''Jun'', ''Jul'', ''Aug'',
          ''Sep'', ''Oct'', ''Nov'', ''Dec''] \<and>
      artists (axs fig ! 1) = [Box 4 [20, 30], Box 5 [10]]"
    unfolding b by simp
  then have 1: "\<exists>fig s'. draw_box_plot ?s = (Inr fig, s') \<and>
      xticklabels (axs fig ! 1) =
        map StrLabel [''Jan'', ''Feb'', ''Mar'', ''Apr'', ''May'', ''Jun'', ''Jul'', ''Aug'',
          ''Sep'', ''Oct'', ''Nov'', ''Dec''] \<and>
      artists (axs fig ! 1) = [Box 4 [20, 30], Box 5 [10]]"
    by (elim exE conjE) (intro exI conjI)
  from month_box_order[OF d0 h0]
  have "\<exists>fig s'. draw_box_plot ?t = (Inr fig, s') \<and> length (axs fig) = 2 \<and>
      xticklabels (axs fig ! 1) = [] \<and> artists (axs fig ! 1) = []"
    by simp
  then have 2: "\<exists>fig s'. draw_box_plot ?t = (Inr fig, s') \<and>
      xticklabels (axs fig ! 1) = [] \<and> artists (axs fig ! 1) = []"
    by (elim exE conjE) (intro exI conjI)
  from d h n 1 d0 h0 2 show ?thesis
    by (intro conjI)
qed

text \<open>
  C8. The rendered text and the file names are fixed. In a state where \<^verbatim>\<open>df\<close> names a
  date-indexed frame of rows \<open>F\<close>: the line chart has the title
  "Daily freeCodeCamp Forum Page Views 5/2016-12/2019" and the axis labels "Date" and
  "Page Views" and is written to line_plot.png; the bar chart, which pandas draws when
  \<open>F\<close> has rows, has the axis labels "Years" and "Average Page Views" and the legend
  title "Months" and is written to bar_plot.png; the two box charts have the titles
  "Year-wise Box Plot (Trend)" and "Month-wise Box Plot (Seasonality)" and the axis
  labels "Year"/"Page Views" and "Month"/"Page Views" and are written to box_plot.png.
  Each renderer writes no other file.
\<close>

theorem fixed_text_and_file_names:
  assumes "df s = Some a" and "heap s a = Some (read_csv F)"
  shows "(\<exists>fig s'. draw_line_plot s = (Inr fig, s') \<and>
            title (axs fig ! 0) = ''Daily freeCodeCamp Forum Page Views 5/2016-12/2019'' \<and>
            xlabel (axs fig ! 0) = ''Date'' \<and> ylabel (axs fig ! 0) = ''Page Views'' \<and>
            dom (files s') = insert ''line_plot.png'' (dom (files s))) \<and>
         (F \<noteq> [] \<longrightarrow>
           (\<exists>fig s'. draw_bar_plot s = (Inr fig, s') \<and>
              xlabel (axs fig ! 0) = ''Years'' \<and> ylabel (axs fig ! 0) = ''Average Page Views'' \<and>
              (\<exists>entries. the_legend (axs fig ! 0) = Some (''Months'', entries)) \<and>
              dom (files s') = insert ''bar_plot.png'' (dom (files s)))) \<and>
         (\<exists>fig s'. draw_box_plot s = (Inr fig, s') \<and>
            title (axs fig ! 0) = ''Year-wise Box Plot (Trend)'' \<and>
            xlabel (axs fig ! 0) = ''Year'' \<and> ylabel (axs fig ! 0) = ''Page Views'' \<and>
            title (axs fig ! 1) = ''Month-wise Box Plot (Seasonality)'' \<and>
            xlabel (axs fig ! 1) = ''Month'' \<and> ylabel (axs fig ! 1) = ''Page Views'' \<and>
            dom (files s') = insert ''box_plot.png'' (dom (files s)))"
proof (intro conjI impI)
  show "\<exists>fig s'. draw_line_plot s = (Inr fig, s') \<and>
            title (axs fig ! 0) = ''Daily freeCodeCamp Forum Page Views 5/2016-12/2019'' \<and>
            xlabel (axs fig ! 0) = ''Date'' \<and> ylabel (axs fig ! 0) = ''Page Views'' \<and>
            dom (files s') = insert ''line_plot.png'' (dom (files s))"
    unfolding draw_line_plot_run[OF assms] by simp
next
  assume "F \<noteq> []"
  from draw_bar_plot_run[OF assms this] obtain fig where
    r: "draw_bar_plot s =
    (Inr fig, s\<lparr>heap := (heap s)(nxt s \<mapsto> bar_frame F), nxt := Suc (nxt s),
                files := (files s)(''bar_plot.png'' \<mapsto> fig)\<rparr>)"
    and f: "fig = \<lparr>figsize = (10, 8),
          axs = [\<lparr>title = [], xlabel = ''Years'', ylabel = ''Average Page Views'',
                  xticklabels = map IntLabel (grid_index (unstack (monthly_means F))),
                  artists = map (\<lambda>(m, c). BarContainer (IntLabel m) c)
                              (grid_columns (unstack (monthly_means F))),
                  the_legend = Some (''Months'',
                    zip (map (\<lambda>(m, c). BarContainer (IntLabel m) c)
                              (grid_columns (unstack (monthly_means F))))
                        (map StrLabel months))\<rparr>]\<rparr>"
    by (elim exE conjE)
  have "xlabel (axs fig ! 0) = ''Years''" "ylabel (axs fig ! 0) = ''Average Page Views''"
    "\<exists>entries. the_legend (axs fig ! 0) = Some (''Months'', entries)"
    unfolding f by simp_all
  then show "\<exists>fig s'. draw_bar_plot s = (Inr fig, s') \<and>
              xlabel (axs fig ! 0) = ''Years'' \<and> ylabel (axs fig ! 0) = ''Average Page Views'' \<and>
              (\<exists>entries. the_legend (axs fig ! 0) = Some (''Months'', entries)) \<and>
              dom (files s') = insert ''bar_plot.png'' (dom (files s))"
    unfolding r by simp
next
  from draw_box_plot_text[OF assms]
  show "\<exists>fig s'. draw_box_plot s = (Inr fig, s') \<and>
            title (axs fig ! 0) = ''Year-wise Box Plot (Trend)'' \<and>
            xlabel (axs fig ! 0) = ''Year'' \<and> ylabel (axs fig ! 0) = ''Page Views'' \<and>
            title (axs fig ! 1) = ''Month-wise Box Plot (Seasonality)'' \<and>
            xlabel (axs fig ! 1) = ''Month'' \<and> ylabel (axs fig ! 1) = ''Page Views'' \<and>
            dom (files s') = insert ''box_plot.png'' (dom (files s))"
    by (elim exE conjE) simp
qed

theorem fixed_text_and_file_names_witness:
  "df (snd (import_module scenario_rows empty_state)) = Some 1 \<and>
   heap (snd (import_module scenario_rows empty_state)) 1
     = Some (read_csv [(\<lparr>year = 2016, month = 5, day = 11\<rparr>, 1716)]) \<and>
   [(\<lparr>year = 2016, month = 5, day = 11\<rparr>, 1716::int)] \<noteq> [] \<and>
   (\<exists>fig s'. draw_bar_plot (snd (import_module scenario_rows empty_state)) = (Inr fig, s') \<and>
      xlabel (axs fig ! 0) = ''Years'' \<and> ylabel (axs fig ! 0) = ''Average Page Views'' \<and>
      (\<exists>entries. the_legend (axs fig ! 0) = Some (''Months'', entries)) \<and>
      dom (files s') = {''bar_plot.png''})"
proof -
  let ?s = "snd (import_module scenario_rows empty_state)"
  let ?F = "[(\<lparr>year = 2016, month = 5, day = 11\<rparr>, 1716::int)]"
  have d: "df ?s = Some 1"
    by code_simp
  have h: "heap ?s 1 = Some (read_csv ?F)"
    by code_simp
  have n: "?F \<noteq> []"
    by simp
  have e: "dom (files ?s) = {}"
    by (simp add: import_module_loaded loaded_def)
  from fixed_text_and_file_names[OF d h] n
  have "\<exists>fig s'. draw_bar_plot ?s = (Inr fig, s') \<and>
      xlabel (axs fig ! 0) = ''Years'' \<and> ylabel (axs fig ! 0) = ''Average Page Views'' \<and>
      (\<exists>entries. the_legend (axs fig ! 0) = Some (''Months'', entries)) \<and>
      dom (files s') = insert ''bar_plot.png'' (dom (files ?s))"
    by (elim conjE impE)
  then have "\<exists>fig s'. draw_bar_plot ?s = (Inr fig, s') \<and>
      xlabel (axs fig ! 0) = ''Years'' \<and> ylabel (axs fig ! 0) = ''Average Page Views'' \<and>
      (\<exists>entries. the_legend (axs fig ! 0) = Some (''Months'', entries)) \<and>
      dom (files s') = {''bar_plot.png''}"
    unfolding e .
  with d h n show ?thesis
    by (intro conjI)
qed

text \<open>
  C10. Each renderer returns a figure, and the figure it returns is the one it has just
  written to its file. The bar renderer returns when \<open>F\<close> has rows; on an empty
  \<open>F\<close> pandas refuses to plot, the call raises and nothing is written.
\<close>

theorem returned_figure_is_saved:
  assumes "df s = Some a" and "heap s a = Some (read_csv F)"
  shows "(\<exists>fig s'. draw_line_plot s = (Inr fig, s') \<and> files s' ''line_plot.png'' = Some fig) \<and>
         (F \<noteq> [] \<longrightarrow>
           (\<exists>fig s'. draw_bar_plot s = (Inr fig, s') \<and> files s' ''bar_plot.png'' = Some fig)) \<and>
         (F = [] \<longrightarrow>
           (\<exists>e s'. draw_bar_plot s = (Inl e, s') \<and> files s' = files s)) \<and>
         (\<exists>fig s'. draw_box_plot s = (Inr fig, s') \<and> files s' ''box_plot.png'' = Some fig)"
proof (intro conjI impI)
  show "\<exists>fig s'. draw_line_plot s = (Inr fig, s') \<and> files s' ''line_plot.png'' = Some fig"
    unfolding draw_line_plot_run[OF assms] by simp
next
  assume "F \<noteq> []"
  from draw_bar_plot_run[OF assms this]
  show "\<exists>fig s'. draw_bar_plot s = (Inr fig, s') \<and> files s' ''bar_plot.png'' = Some fig"
    by (elim exE conjE) simp
next
  assume "F = []"
  with assms draw_bar_plot_empty[of s a]
  show "\<exists>e s'. draw_bar_plot s = (Inl e, s') \<and> files s' = files s"
    by simp
next
  from draw_box_plot_text[OF assms]
  show "\<exists>fig s'. draw_box_plot s = (Inr fig, s') \<and> files s' ''box_plot.png'' = Some fig"
    by (elim exE conjE) simp
qed

theorem returned_figure_is_saved_witness:
  "df (snd (import_module scenario_rows empty_state)) = Some 1 \<and>
   heap (snd (import_module scenario_rows empty_state)) 1
     = Some (read_csv [(\<lparr>year = 2016, month = 5, day = 11\<rparr>, 1716)]) \<and>
   [(\<lparr>year = 2016, month = 5, day = 11\<rparr>, 1716::int)] \<noteq> [] \<and>
   (\<exists>fig s'. draw_bar_plot (snd (import_module scenario_rows empty_state)) = (Inr fig, s') \<and>
      files s' ''bar_plot.png'' = Some fig) \<and>
   df (snd (import_module [] empty_state)) = Some 1 \<and>
   heap (snd (import_module [] empty_state)) 1 = Some (read_csv []) \<and>
   (\<exists>e s'. draw_bar_plot (snd (import_module [] empty_state)) = (Inl e, s') \<and>
      files s' = files (snd (import_module [] empty_state)))"
proof -
  let ?s = "snd (import_module scenario_rows empty_state)"
  let ?F = "[(\<lparr>year = 2016, month = 5, day = 11\<rparr>, 1716::int)]"
  let ?t = "snd (import_module [] empty_state)"
  have d: "df ?s = Some 1"
    by code_simp
  have h: "heap ?s 1 = Some (read_csv ?F)"
    by code_simp
  have n: "?F \<noteq> []"
    by simp
  have d0: "df ?t = Some 1"
    by code_simp
  have h0: "heap ?t 1 = Some (read_csv [])"
    by code_simp
  from returned_figure_is_saved[OF d h] n
  have 1: "\<exists>fig s'. draw_bar_plot ?s = (Inr fig, s') \<and> files s' ''bar_plot.png'' = Some fig"
    by simp
  from returned_figure_is_saved[OF d0 h0]
  have 2: "\<exists>e s'. draw_bar_plot ?t = (Inl e, s') \<and> files s' = files ?t"
    by simp
  from d h n 1 d0 h0 2 show ?thesis
    by (intro conjI)
qed

section \<open>Claim about the shared table\<close>

text \<open>
  C9. No renderer changes the frame that \<^verbatim>\<open>df\<close> names, nor the name itself: after a
  call of any of the three, whether it returns or raises, \<^verbatim>\<open>df\<close> names the same
  object and the object is as it was; the columns that the bar and the box renderer
  add go into copies, which are new objects. The allocator's invariant (the object is
  older than the next free address) holds again afterwards, so the statement applies to
  every later call as well.
\<close>

theorem renderers_leave_df_untouched:
  assumes "df s = Some a" and "a < nxt s"
  shows "heap (snd (draw_line_plot s)) a = heap s a \<and> df (snd (draw_line_plot s)) = Some a \<and>
           a < nxt (snd (draw_line_plot s)) \<and>
         heap (snd (draw_bar_plot s)) a = heap s a \<and> df (snd (draw_bar_plot s)) = Some a \<and>
           a < nxt (snd (draw_bar_plot s)) \<and>
         heap (snd (draw_box_plot s)) a = heap s a \<and> df (snd (draw_box_plot s)) = Some a \<and>
           a < nxt (snd (draw_box_plot s))"
  using assms draw_line_plot_frame[of s] draw_bar_plot_frame[OF assms]
    draw_box_plot_frame[OF assms]
  by simp

theorem renderers_leave_df_untouched_witness:
  "df (snd (import_module scenario_rows empty_state)) = Some 1 \<and>
   1 < nxt (snd (import_module scenario_rows empty_state)) \<and>
   heap (snd (import_module scenario_rows empty_state)) 1
     = Some (read_csv [(\<lparr>year = 2016, month = 5, day = 11\<rparr>, 1716)]) \<and>
   heap (snd (draw_line_plot (snd (import_module scenario_rows empty_state)))) 1
     = Some (read_csv [(\<lparr>year = 2016, month = 5, day = 11\<rparr>, 1716)]) \<and>
   heap (snd (draw_bar_plot (snd (import_module scenario_rows empty_state)))) 1
     = Some (read_csv [(\<lparr>year = 2016, month = 5, day = 11\<rparr>, 1716)]) \<and>
   heap (snd (draw_bar_plot (snd (import_module scenario_rows empty_state)))) 2
     = Some (bar_frame [(\<lparr>year = 2016, month = 5, day = 11\<rparr>, 1716)]) \<and>
   heap (snd (draw_box_plot (snd (import_module scenario_rows empty_state)))) 1
     = Some (read_csv [(\<lparr>year = 2016, month = 5, day = 11\<rparr>, 1716)]) \<and>
   heap (snd (draw_box_plot (snd (import_module scenario_rows empty_state)))) 2
     = Some (box_data [(\<lparr>year = 2016, month = 5, day = 11\<rparr>, 1716)])"
proof -
  let ?s = "snd (import_module scenario_rows empty_state)"
  let ?F = "[(\<lparr>year = 2016, month = 5, day = 11\<rparr>, 1716::int)]"
  have d: "df ?s = Some 1"
    by code_simp
  have x: "1 < nxt ?s"
    by code_simp
  have h: "heap ?s 1 = Some (read_csv ?F)"
    by code_simp
  have b: "heap (snd (draw_bar_plot ?s)) 2 = Some (bar_frame ?F)"
    by code_simp
  have c: "heap (snd (draw_box_plot ?s)) 2 = Some (box_data ?F)"
    by code_simp
  from renderers_leave_df_untouched[OF d x]
  have "heap (snd (draw_line_plot ?s)) 1 = heap ?s 1"
       "heap (snd (draw_bar_plot ?s)) 1 = heap ?s 1"
       "heap (snd (draw_box_plot ?s)) 1 = heap ?s 1"
    by simp_all
  with d x h b c show ?thesis
    by simp
qed

end
